theory Spec2Isabelle
  imports Main
begin

section \<open>Values of the program\<close>

text \<open>
  A Go \<open>error\<close> value is identified by its message. The two structs of the
  authorization library that \<open>cmd/pocket/main.go\<close> handles are records; a Go pointer
  to one of them is an \<open>option\<close> (\<open>None\<close> is \<open>nil\<close>), and a Go result pair
  \<open>(ptr, err)\<close> is a pair of options (\<open>err = None\<close> is \<open>err == nil\<close>).
\<close>

datatype error = Error string

fun error_string :: "error \<Rightarrow> string" where
  "error_string (Error m) = m"

record Authorization =
  AccessToken :: string
  Username :: string

record RequestToken =
  Code :: string

text \<open>The structs of the client library that the commands build and print.\<close>

record AddOption =
  URL :: string
  Title :: string
  Tags :: string

record Action =
  Action :: string
  ItemID :: int

record ActionResult =
  ActionResults :: "bool list"
  Status :: int

text \<open>How a call ends: it returns, panics, exits the process, or blocks forever.\<close>

datatype 'a outcome = Return 'a | Panic error | Exit nat | Blocked

section \<open>The world: files and the trace of effects\<close>

datatype event =
    LogPrint string
  | StdoutPrintln string
  | OsOpen string
  | OsCreate string
  | FileWrite string string
  | NewServer
  | ServerClose
  | AuthObtainRequestToken string string
  | AuthGenerateAuthorizationURL "RequestToken option" string
  | ChanReceive
  | AuthObtainAccessToken string "RequestToken option"
  | IoutilReadFile string
  | StdinReadLine
  | IoutilWriteFile string string nat
  | ClientAdd AddOption
  | ClientModify Action
  | StdoutPrintlnModify "ActionResult option" "error option"
  | StderrPrintln string

record world =
  files :: "string \<Rightarrow> string option"
  trace :: "event list"

definition emit :: "event \<Rightarrow> world \<Rightarrow> world" where
  "emit e w = w\<lparr>trace := trace w @ [e]\<rparr>"

text \<open>
  The environment holds what the program does not decide: the global \<open>configDir\<close> set by
  \<open>init\<close>, the failures of the operating system, the JSON codec of the standard library,
  the address the test server is bound to, the paths of the HTTP requests that reach the
  listener while it is bound, the answers of the three calls of the authorization
  library, the bytes that wait on standard input, \<open>strconv.Atoi\<close>, and the answers of
  the remote client.
\<close>

record env =
  configDir :: string
  os_Open_err :: "string \<Rightarrow> error option"
  os_Create_err :: "string \<Rightarrow> error option"
  file_Write_res :: "string \<Rightarrow> string \<Rightarrow> (nat \<times> error) option"
  json_Encode :: "Authorization option \<Rightarrow> error + string"
  json_Decode :: "string \<Rightarrow> Authorization \<Rightarrow> error option \<times> Authorization"
  ts_URL :: string
  incoming :: "string list"
  auth_ObtainRequestToken :: "string \<Rightarrow> string \<Rightarrow> RequestToken option \<times> error option"
  auth_GenerateAuthorizationURL :: "RequestToken option \<Rightarrow> string \<Rightarrow> string"
  auth_ObtainAccessToken :: "string \<Rightarrow> RequestToken option \<Rightarrow> Authorization option \<times> error option"
  stdin :: string
  strconv_Atoi :: "string \<Rightarrow> int \<times> error option"
  client_Add :: "AddOption \<Rightarrow> error option"
  client_Modify :: "Action \<Rightarrow> ActionResult option \<times> error option"

text \<open>
  \<open>filepath.Join(configDir, name)\<close>: \<open>configDir\<close> is itself the result of a
  \<open>filepath.Join\<close> that ends in \<open>.config/pocket\<close>, so joining is a separator between
  the two.
\<close>

definition filepath_Join :: "string \<Rightarrow> string \<Rightarrow> string" where
  "filepath_Join dir name = dir @ ''/'' @ name"

subsection \<open>Files\<close>

text \<open>
  \<open>os.Open\<close> fails when the system refuses or the file does not exist; the handle it
  returns is read as the content of the file.
\<close>

definition os_Open :: "env \<Rightarrow> string \<Rightarrow> world \<Rightarrow> (error + string) \<times> world" where
  "os_Open E path w =
     ((case os_Open_err E path of
         Some e \<Rightarrow> Inl e
       | None \<Rightarrow>
           (case files w path of
              None \<Rightarrow> Inl (Error (''open '' @ path @ '': no such file or directory''))
            | Some content \<Rightarrow> Inr content)),
      emit (OsOpen path) w)"

text \<open>\<open>os.Create\<close> creates the file or truncates it; a refusal leaves the files alone.\<close>

definition os_Create :: "env \<Rightarrow> string \<Rightarrow> world \<Rightarrow> error option \<times> world" where
  "os_Create E path w =
     (case os_Create_err E path of
        Some e \<Rightarrow> (Some e, emit (OsCreate path) w)
      | None \<Rightarrow> (None, emit (OsCreate path) (w\<lparr>files := (files w)(path \<mapsto> [])\<rparr>)))"

text \<open>
  A write through the handle appends to what the file holds; a failing write has put
  the first \<open>n\<close> bytes there.
\<close>

definition file_Write :: "env \<Rightarrow> string \<Rightarrow> string \<Rightarrow> world \<Rightarrow> error option \<times> world" where
  "file_Write E path bytes w =
     (let old = (case files w path of None \<Rightarrow> [] | Some c \<Rightarrow> c) in
      case file_Write_res E path bytes of
        None \<Rightarrow> (None, emit (FileWrite path bytes) (w\<lparr>files := (files w)(path \<mapsto> old @ bytes)\<rparr>))
      | Some (n, e) \<Rightarrow>
          (Some e, emit (FileWrite path (take n bytes))
                     (w\<lparr>files := (files w)(path \<mapsto> old @ take n bytes)\<rparr>)))"

text \<open>
  \<open>saveJSONToFile\<close>: create, then encode the value and write the encoding in one write.
  An encoding that fails writes nothing (the file stays truncated).
\<close>

definition saveJSONToFile :: "env \<Rightarrow> string \<Rightarrow> Authorization option \<Rightarrow> world \<Rightarrow> error option \<times> world" where
  "saveJSONToFile E path v w =
     (case os_Create E path w of
        (Some err, w1) \<Rightarrow> (Some err, w1)
      | (None, w1) \<Rightarrow>
          (case json_Encode E v of
             Inl err \<Rightarrow> (Some err, w1)
           | Inr bytes \<Rightarrow> file_Write E path bytes w1))"

text \<open>
  \<open>loadJSONFromFile\<close>: open, then decode the content into the value \<open>v\<close> points to.
  The result is the error and the value \<open>v\<close> points to afterwards.
\<close>

definition loadJSONFromFile :: "env \<Rightarrow> string \<Rightarrow> Authorization \<Rightarrow> world \<Rightarrow> (error option \<times> Authorization) \<times> world" where
  "loadJSONFromFile E path v w =
     (case os_Open E path w of
        (Inl err, w1) \<Rightarrow> ((Some err, v), w1)
      | (Inr content, w1) \<Rightarrow> (json_Decode E content v, w1))"

section \<open>The callback listener\<close>

text \<open>
  The handler of the test server, as the statements it runs. The last statement of the
  callback branch is the send on the channel \<open>ch\<close>.
\<close>

datatype handler_action =
    HttpError string nat
  | HeaderSet string string
  | Fprintln string
  | ChanSend

definition handler :: "string \<Rightarrow> handler_action list" where
  "handler path =
     (if path = ''/favicon.ico'' then [HttpError ''Not Found'' 404]
      else [HeaderSet ''Content-Type'' ''text/plain'', Fprintln ''Authorized.'', ChanSend])"

text \<open>The channel is made by \<open>make(chan struct{})\<close>: no buffer.\<close>

definition ch_capacity :: nat where
  "ch_capacity = 0"

text \<open>The requests whose handler reaches the send.\<close>

definition callbacks :: "env \<Rightarrow> string list" where
  "callbacks E = filter (\<lambda>p. ChanSend \<in> set (handler p)) (incoming E)"

section \<open>Acquisition\<close>

text \<open>
  The deferred \<open>ts.Close()\<close> waits for the outstanding requests of the server. A handler
  whose send nobody receives never finishes, so the call blocks when more callback
  requests reached the listener than the flow received signals.
\<close>

definition ts_Close :: "env \<Rightarrow> nat \<Rightarrow> 'a \<Rightarrow> world \<Rightarrow> 'a outcome \<times> world" where
  "ts_Close E received r w =
     (if received + ch_capacity < length (callbacks E) then (Blocked, emit ServerClose w)
      else (Return r, emit ServerClose w))"

definition obtainAccessToken :: "env \<Rightarrow> string \<Rightarrow> world \<Rightarrow> (Authorization option \<times> error option) outcome \<times> world" where
  "obtainAccessToken E consumerKey w =
     (let w1 = emit NewServer w;
          redirectURL = ts_URL E;
          (requestToken, err) = auth_ObtainRequestToken E consumerKey redirectURL;
          w2 = emit (AuthObtainRequestToken consumerKey redirectURL) w1
      in case err of
           Some e \<Rightarrow> ts_Close E 0 (None, Some e) w2
         | None \<Rightarrow>
             (let url = auth_GenerateAuthorizationURL E requestToken redirectURL;
                  w3 = emit (AuthGenerateAuthorizationURL requestToken redirectURL) w2;
                  w4 = emit (StdoutPrintln url) w3
              in if callbacks E = [] then (Blocked, w4)
                 else
                   (let w5 = emit ChanReceive w4;
                        r = auth_ObtainAccessToken E consumerKey requestToken;
                        w6 = emit (AuthObtainAccessToken consumerKey requestToken) w5
                    in ts_Close E 1 r w6)))"

definition restoreAccessToken :: "env \<Rightarrow> string \<Rightarrow> world \<Rightarrow> (Authorization option \<times> error option) outcome \<times> world" where
  "restoreAccessToken E consumerKey w =
     (let accessToken = \<lparr>AccessToken = [], Username = []\<rparr>;
          authFile = filepath_Join (configDir E) ''auth.json''
      in case loadJSONFromFile E authFile accessToken w of
           ((None, loaded), w1) \<Rightarrow> (Return (Some loaded, None), w1)
         | ((Some err, loaded), w1) \<Rightarrow>
             (let w2 = emit (LogPrint (error_string err)) w1 in
              case obtainAccessToken E consumerKey w2 of
                (Return (obtained, Some err2), w3) \<Rightarrow> (Return (None, Some err2), w3)
              | (Return (obtained, None), w3) \<Rightarrow>
                  (case saveJSONToFile E authFile obtained w3 of
                     (Some err3, w4) \<Rightarrow> (Return (None, Some err3), w4)
                   | (None, w4) \<Rightarrow> (Return (obtained, None), w4))
              | (Panic e, w3) \<Rightarrow> (Panic e, w3)
              | (Exit n, w3) \<Rightarrow> (Exit n, w3)
              | (Blocked, w3) \<Rightarrow> (Blocked, w3)))"

section \<open>The steps of a run\<close>

text \<open>
  The steps the acquisition flow is described by, read off the trace: the bind of the
  listener is the start of the test server, the persist step starts with the creation of
  the record file.
\<close>

datatype step = RequestCredential | URLConstruction | ListenerBind | AwaitSignal | Exchange | Persist

fun step_of :: "event \<Rightarrow> step option" where
  "step_of NewServer = Some ListenerBind"
| "step_of (AuthObtainRequestToken k u) = Some RequestCredential"
| "step_of (AuthGenerateAuthorizationURL t u) = Some URLConstruction"
| "step_of ChanReceive = Some AwaitSignal"
| "step_of (AuthObtainAccessToken k t) = Some Exchange"
| "step_of (OsCreate p) = Some Persist"
| "step_of ev = None"

fun steps_of :: "event list \<Rightarrow> step list" where
  "steps_of [] = []"
| "steps_of (ev # evs) =
     (case step_of ev of None \<Rightarrow> steps_of evs | Some s \<Rightarrow> s # steps_of evs)"

definition new_events :: "world \<Rightarrow> world \<Rightarrow> event list" where
  "new_events w w' = drop (length (trace w)) (trace w')"

definition steps :: "world \<Rightarrow> world \<Rightarrow> step list" where
  "steps w w' = steps_of (new_events w w')"

fun is_write :: "event \<Rightarrow> bool" where
  "is_write (OsCreate p) = True"
| "is_write (FileWrite p b) = True"
| "is_write (IoutilWriteFile p b m) = True"
| "is_write ev = False"

section \<open>A concrete environment\<close>

text \<open>
  The scenario of a first run: no record file, the request credential \<open>req-1\<close>, one
  favicon probe and one callback hit, the exchange answering \<open>tok-xyz\<close> for \<open>alice\<close>.
  Its codec writes and reads the two fields of a record whose strings need no escape.
\<close>

definition dq :: string where
  "dq = [CHR 0x22]"

fun strip_prefix :: "string \<Rightarrow> string \<Rightarrow> string option" where
  "strip_prefix [] s = Some s"
| "strip_prefix (p # ps) [] = None"
| "strip_prefix (p # ps) (c # cs) = (if p = c then strip_prefix ps cs else None)"

definition demo_Encode :: "Authorization option \<Rightarrow> error + string" where
  "demo_Encode v =
     (case v of
        None \<Rightarrow> Inr ''null\<newline>''
      | Some a \<Rightarrow>
          Inr (''{'' @ dq @ ''access_token'' @ dq @ '':'' @ dq @ AccessToken a @ dq @ '','' @
               dq @ ''username'' @ dq @ '':'' @ dq @ Username a @ dq @ ''}\<newline>''))"

definition demo_Decode :: "string \<Rightarrow> Authorization \<Rightarrow> error option \<times> Authorization" where
  "demo_Decode bytes v =
     (case strip_prefix (''{'' @ dq @ ''access_token'' @ dq @ '':'' @ dq) bytes of
        None \<Rightarrow> (Some (Error ''invalid character''), v)
      | Some r1 \<Rightarrow>
          (let tok = takeWhile (\<lambda>c. c \<noteq> CHR 0x22) r1;
               r2 = dropWhile (\<lambda>c. c \<noteq> CHR 0x22) r1
           in case strip_prefix (dq @ '','' @ dq @ ''username'' @ dq @ '':'' @ dq) r2 of
                None \<Rightarrow> (Some (Error ''invalid character''), v\<lparr>AccessToken := tok\<rparr>)
              | Some r3 \<Rightarrow>
                  (let usr = takeWhile (\<lambda>c. c \<noteq> CHR 0x22) r3;
                       r4 = dropWhile (\<lambda>c. c \<noteq> CHR 0x22) r3
                   in case strip_prefix (dq @ ''}'') r4 of
                        None \<Rightarrow> (Some (Error ''unexpected EOF''), v\<lparr>AccessToken := tok\<rparr>)
                      | Some r5 \<Rightarrow> (None, v\<lparr>AccessToken := tok, Username := usr\<rparr>))))"

text \<open>A decimal parser for the item ids of that environment: digits only.\<close>

fun digits_value :: "string \<Rightarrow> int \<Rightarrow> int option" where
  "digits_value [] acc = Some acc"
| "digits_value (c # cs) acc =
     (let d = (of_char c :: nat) in
      if 48 \<le> d \<and> d \<le> 57 then digits_value cs (10 * acc + (int d - 48)) else None)"

definition demo_Atoi :: "string \<Rightarrow> int \<times> error option" where
  "demo_Atoi s =
     (case (if s = [] then None else digits_value s 0) of
        None \<Rightarrow> (0, Some (Error (''strconv.Atoi: parsing '' @ s @ '': invalid syntax'')))
      | Some n \<Rightarrow> (n, None))"

definition demo_env :: env where
  "demo_env =
     \<lparr>configDir = ''/home/alice/.config/pocket'',
      os_Open_err = (\<lambda>p. None),
      os_Create_err = (\<lambda>p. None),
      file_Write_res = (\<lambda>p b. None),
      json_Encode = demo_Encode,
      json_Decode = demo_Decode,
      ts_URL = ''http://127.0.0.1:40123'',
      incoming = [''/favicon.ico'', ''/''],
      auth_ObtainRequestToken = (\<lambda>k u. (Some \<lparr>Code = ''req-1''\<rparr>, None)),
      auth_GenerateAuthorizationURL =
        (\<lambda>t u. ''https://getpocket.com/auth/authorize?request_token='' @
                (case t of None \<Rightarrow> [] | Some rt \<Rightarrow> Code rt) @ ''&redirect_uri='' @ u),
      auth_ObtainAccessToken =
        (\<lambda>k t. (Some \<lparr>AccessToken = ''tok-xyz'', Username = ''alice''\<rparr>, None)),
      stdin = ''abc123\<newline>'',
      strconv_Atoi = demo_Atoi,
      client_Add = (\<lambda>opt. None),
      client_Modify = (\<lambda>a. (None, Some (Error ''503 Service Unavailable'')))\<rparr>"

definition demo_world :: world where
  "demo_world = \<lparr>files = Map.empty, trace = []\<rparr>"

text \<open>The same run on a system that refuses to create the record file.\<close>

definition save_fails_env :: env where
  "save_fails_env = demo_env\<lparr>os_Create_err := (\<lambda>p. Some (Error ''permission denied''))\<rparr>"

text \<open>A later run: the record file of the first run is there.\<close>

definition cached_world :: world where
  "cached_world =
     \<lparr>files = [''/home/alice/.config/pocket/auth.json'' \<mapsto>
                 ''{'' @ dq @ ''access_token'' @ dq @ '':'' @ dq @ ''tok-xyz'' @ dq @ '','' @
                 dq @ ''username'' @ dq @ '':'' @ dq @ ''alice'' @ dq @ ''}\<newline>''],
      trace = []\<rparr>"

text \<open>The first run again, with a remote service that declines the exchange.\<close>

definition exchange_fails_env :: env where
  "exchange_fails_env =
     demo_env\<lparr>auth_ObtainAccessToken := (\<lambda>k t. (None, Some (Error ''403 Forbidden'')))\<rparr>"

section \<open>The answers of the handler\<close>







section \<open>The commands\<close>

text \<open>
  The context a command of the \<open>cli\<close> library runs in: the positional arguments and the
  flag set of the command, which maps each registered name to its value (the default of
  a string flag is the empty string). \<open>c.Args().First()\<close> is the first argument or the
  empty string; \<open>c.String(name)\<close> is the value of the flag registered under \<open>name\<close>,
  and the empty string when no flag has that name.
\<close>

record Context =
  args :: "string list"
  flagSet :: "string \<Rightarrow> string option"

definition c_Args_First :: "Context \<Rightarrow> string" where
  "c_Args_First c = (case args c of [] \<Rightarrow> [] | a # rest \<Rightarrow> a)"

definition c_String :: "Context \<Rightarrow> string \<Rightarrow> string" where
  "c_String c name = (case flagSet c name of None \<Rightarrow> [] | Some v \<Rightarrow> v)"

text \<open>
  A flag is registered under each of the names of its \<open>Name\<close> field: the field is split
  at the commas and the spaces around each part are trimmed.
\<close>

fun strings_Split :: "char \<Rightarrow> string \<Rightarrow> string \<Rightarrow> string list" where
  "strings_Split sep [] cur = [rev cur]"
| "strings_Split sep (x # xs) cur =
     (if x = sep then rev cur # strings_Split sep xs [] else strings_Split sep xs (x # cur))"

definition strings_Trim :: "char \<Rightarrow> string \<Rightarrow> string" where
  "strings_Trim ch s = rev (dropWhile (\<lambda>c. c = ch) (rev (dropWhile (\<lambda>c. c = ch) s)))"

definition eachName :: "string \<Rightarrow> string list" where
  "eachName longName = map (strings_Trim CHR '' '') (strings_Split CHR '','' longName [])"

definition titleFlag :: string where
  "titleFlag = ''title, t''"

definition tagsFlag :: string where
  "tagsFlag = ''tags, tg''"

text \<open>The flags of the command \<open>add\<close>.\<close>

definition add_Flags :: "string list" where
  "add_Flags = [titleFlag, tagsFlag]"

text \<open>
  The context of a command with the flags \<open>flags\<close>, run with the flag values \<open>given\<close>
  on the command line (by registered name) and the positional arguments \<open>arguments\<close>.
\<close>

definition newContext :: "string list \<Rightarrow> (string \<Rightarrow> string option) \<Rightarrow> string list \<Rightarrow> Context" where
  "newContext flags given arguments =
     \<lparr>args = arguments,
      flagSet = (\<lambda>name. if name \<in> set (concat (map eachName flags))
                        then Some (case given name of None \<Rightarrow> [] | Some v \<Rightarrow> v)
                        else None)\<rparr>"

definition commandAdd :: "env \<Rightarrow> Context \<Rightarrow> world \<Rightarrow> error option outcome \<times> world" where
  "commandAdd E c w =
     (let options = \<lparr>URL = [], Title = [], Tags = []\<rparr>;
          url = c_Args_First c
      in if url = [] then (Return (Some (Error ''url not found'')), w)
         else
           (let options = options\<lparr>URL := url\<rparr>;
                title = c_String c ''title'';
                options = (if title \<noteq> [] then options\<lparr>Title := title\<rparr> else options);
                tags = c_String c ''--tags'';
                options = (if tags \<noteq> [] then options\<lparr>Tags := tags\<rparr> else options);
                err = client_Add E options;
                w1 = emit (ClientAdd options) w
            in case err of
                 Some e \<Rightarrow> (Exit 1, emit (StderrPrintln (error_string e)) w1)
               | None \<Rightarrow> (Return None, w1)))"

definition NewArchiveAction :: "int \<Rightarrow> Action" where
  "NewArchiveAction itemID = \<lparr>Action = ''archive'', ItemID = itemID\<rparr>"

definition commandArchive :: "env \<Rightarrow> Context \<Rightarrow> world \<Rightarrow> error option outcome \<times> world" where
  "commandArchive E c w =
     (let itemIDString = c_Args_First c
      in if itemIDString = [] then (Return (Some (Error ''item id not found'')), w)
         else
           (case strconv_Atoi E itemIDString of
              (itemID, Some err) \<Rightarrow> (Return (Some (Error ''item id should be number'')), w)
            | (itemID, None) \<Rightarrow>
                (let action = NewArchiveAction itemID;
                     (res, err) = client_Modify E action;
                     w1 = emit (ClientModify action) w;
                     w2 = emit (StdoutPrintlnModify res err) w1
                 in (Return None, w2))))"

text \<open>
  The exit status of the process after the action of a command: \<open>main\<close> exits with 1
  when \<open>app.Run\<close> returns an error, a panic ends the process with the status 2, and a
  blocked run has no exit status.
\<close>

definition main_exit :: "error option outcome \<Rightarrow> nat option" where
  "main_exit r =
     (case r of
        Return None \<Rightarrow> Some 0
      | Return (Some err) \<Rightarrow> Some 1
      | Panic e \<Rightarrow> Some 2
      | Exit n \<Rightarrow> Some n
      | Blocked \<Rightarrow> None)"

section \<open>The consumer key\<close>












section \<open>Facts about the effects\<close>

lemma emit_files: "files (emit e w) = files w"
  by (simp add: emit_def)

lemma emit_trace: "trace (emit e w) = trace w @ [e]"
  by (simp add: emit_def)

lemma new_events_append: "trace w' = trace w @ es \<Longrightarrow> new_events w w' = es"
  by (simp add: new_events_def)

lemma steps_of_append: "steps_of (xs @ ys) = steps_of xs @ steps_of ys"
  by (induction xs) (simp_all split: option.splits)

lemma steps_of_none: "\<forall>ev\<in>set es. step_of ev = None \<Longrightarrow> steps_of es = []"
  by (induction es) simp_all

lemma loadJSONFromFile_world: "snd (loadJSONFromFile E p v w) = emit (OsOpen p) w"
  by (simp add: loadJSONFromFile_def os_Open_def split: option.splits sum.splits prod.splits)

lemma loadJSONFromFile_ok:
  "os_Open_err E p = None \<Longrightarrow> files w p = Some content \<Longrightarrow>
   loadJSONFromFile E p v w = (json_Decode E content v, emit (OsOpen p) w)"
  by (simp add: loadJSONFromFile_def os_Open_def)

lemma loadJSONFromFile_missing:
  "files w p = None \<Longrightarrow> fst (fst (loadJSONFromFile E p v w)) \<noteq> None"
  by (simp add: loadJSONFromFile_def os_Open_def split: option.splits)

lemma loadJSONFromFile_malformed:
  "files w p = Some content \<Longrightarrow> fst (json_Decode E content v) \<noteq> None \<Longrightarrow>
   fst (fst (loadJSONFromFile E p v w)) \<noteq> None"
  by (simp add: loadJSONFromFile_def os_Open_def split: option.splits)

lemma saveJSONToFile_trace:
  "\<exists>es. trace (snd (saveJSONToFile E p v w)) = trace w @ OsCreate p # es \<and>
        (\<forall>ev\<in>set es. step_of ev = None)"
  by (simp add: saveJSONToFile_def os_Create_def file_Write_def Let_def emit_def
           split: prod.splits option.splits sum.splits)

lemma obtainAccessToken_files: "files (snd (obtainAccessToken E k w)) = files w"
  by (simp add: obtainAccessToken_def ts_Close_def Let_def emit_files
           split: prod.splits option.splits)

lemma obtainAccessToken_trace:
  "\<exists>es. trace (snd (obtainAccessToken E k w)) = trace w @ es \<and> (\<forall>ev\<in>set es. \<not> is_write ev)"
  by (simp add: obtainAccessToken_def ts_Close_def Let_def emit_def
           split: prod.splits option.splits)

text \<open>What a successful return of \<open>obtainAccessToken\<close> says about the run.\<close>

lemma obtainAccessToken_Return:
  assumes "obtainAccessToken E k w = (Return (tok, None), w')"
  shows "\<exists>rt. auth_ObtainRequestToken E k (ts_URL E) = (rt, None) \<and>
          auth_ObtainAccessToken E k rt = (tok, None) \<and>
          length (callbacks E) = 1 \<and>
          files w' = files w \<and>
          trace w' = trace w @ [NewServer, AuthObtainRequestToken k (ts_URL E),
                   AuthGenerateAuthorizationURL rt (ts_URL E),
                   StdoutPrintln (auth_GenerateAuthorizationURL E rt (ts_URL E)),
                   ChanReceive, AuthObtainAccessToken k rt, ServerClose]"
proof -
  obtain rt e where rq: "auth_ObtainRequestToken E k (ts_URL E) = (rt, e)"
    by (cases "auth_ObtainRequestToken E k (ts_URL E)")
  show ?thesis
  proof (cases e)
    case (Some x)
    with assms rq show ?thesis
      by (simp add: obtainAccessToken_def ts_Close_def Let_def split: if_splits)
  next
    case None
    obtain t2 e2 where ex: "auth_ObtainAccessToken E k rt = (t2, e2)"
      by (cases "auth_ObtainAccessToken E k rt")
    from assms rq None ex
    have "callbacks E \<noteq> []" "\<not> 1 < length (callbacks E)" "t2 = tok" "e2 = None"
      by (simp_all add: obtainAccessToken_def ts_Close_def Let_def ch_capacity_def
            split: if_splits)
    moreover from this have "length (callbacks E) = 1"
      by (cases "callbacks E") simp_all
    moreover from assms rq None ex have "files w' = files w"
      "trace w' = trace w @ [NewServer, AuthObtainRequestToken k (ts_URL E),
                   AuthGenerateAuthorizationURL rt (ts_URL E),
                   StdoutPrintln (auth_GenerateAuthorizationURL E rt (ts_URL E)),
                   ChanReceive, AuthObtainAccessToken k rt, ServerClose]"
      by (auto simp add: obtainAccessToken_def ts_Close_def Let_def emit_def ch_capacity_def
            split: if_splits)
    ultimately show ?thesis using rq None ex by simp
  qed
qed

lemma restore_hit:
  assumes "loadJSONFromFile E (filepath_Join (configDir E) ''auth.json'')
             \<lparr>AccessToken = [], Username = []\<rparr> w = ((None, v), w1)"
  shows "restoreAccessToken E k w =
           (Return (Some v, None), emit (OsOpen (filepath_Join (configDir E) ''auth.json'')) w)"
  using assms
    loadJSONFromFile_world [of E "filepath_Join (configDir E) ''auth.json''"
      "\<lparr>AccessToken = [], Username = []\<rparr>" w]
  by (simp add: restoreAccessToken_def Let_def)

lemma restore_miss:
  assumes "loadJSONFromFile E (filepath_Join (configDir E) ''auth.json'')
             \<lparr>AccessToken = [], Username = []\<rparr> w = ((Some err, v), w1)"
  shows "restoreAccessToken E k w =
     (case obtainAccessToken E k (emit (LogPrint (error_string err)) w1) of
        (Return (obtained, Some err2), w3) \<Rightarrow> (Return (None, Some err2), w3)
      | (Return (obtained, None), w3) \<Rightarrow>
          (case saveJSONToFile E (filepath_Join (configDir E) ''auth.json'') obtained w3 of
             (Some err3, w4) \<Rightarrow> (Return (None, Some err3), w4)
           | (None, w4) \<Rightarrow> (Return (obtained, None), w4))
      | (Panic e, w3) \<Rightarrow> (Panic e, w3)
      | (Exit n, w3) \<Rightarrow> (Exit n, w3)
      | (Blocked, w3) \<Rightarrow> (Blocked, w3))"
  using assms by (simp add: restoreAccessToken_def Let_def)

lemma steps_run:
  assumes ld: "loadJSONFromFile E (filepath_Join (configDir E) ''auth.json'')
                 \<lparr>AccessToken = [], Username = []\<rparr> w = ((Some err, v), w1)"
    and ob: "obtainAccessToken E k (emit (LogPrint (error_string err)) w1) = (Return (tok, None), w3)"
  shows "steps w (snd (saveJSONToFile E (filepath_Join (configDir E) ''auth.json'') tok w3)) =
           [ListenerBind, RequestCredential, URLConstruction, AwaitSignal, Exchange, Persist]"
proof -
  let ?p = "filepath_Join (configDir E) ''auth.json''"
  from ld have w1: "w1 = emit (OsOpen ?p) w"
    using loadJSONFromFile_world [of E ?p "\<lparr>AccessToken = [], Username = []\<rparr>" w] by simp
  from obtainAccessToken_Return [OF ob] obtain rt where
    t3: "trace w3 = trace (emit (LogPrint (error_string err)) w1) @
           [NewServer, AuthObtainRequestToken k (ts_URL E),
            AuthGenerateAuthorizationURL rt (ts_URL E),
            StdoutPrintln (auth_GenerateAuthorizationURL E rt (ts_URL E)),
            ChanReceive, AuthObtainAccessToken k rt, ServerClose]"
    by blast
  obtain es where
    t4: "trace (snd (saveJSONToFile E ?p tok w3)) = trace w3 @ OsCreate ?p # es"
    and es: "\<forall>ev\<in>set es. step_of ev = None"
    using saveJSONToFile_trace [of E ?p tok w3] by blast
  have "new_events w (snd (saveJSONToFile E ?p tok w3)) =
          [OsOpen ?p, LogPrint (error_string err), NewServer,
           AuthObtainRequestToken k (ts_URL E),
           AuthGenerateAuthorizationURL rt (ts_URL E),
           StdoutPrintln (auth_GenerateAuthorizationURL E rt (ts_URL E)),
           ChanReceive, AuthObtainAccessToken k rt, ServerClose, OsCreate ?p] @ es"
    by (rule new_events_append) (simp add: t4 t3 w1 emit_trace)
  moreover have "steps_of es = []"
    using es by (rule steps_of_none)
  ultimately show ?thesis
    by (simp add: steps_def steps_of_append)
qed

lemmas demo_defs =
  demo_env_def save_fails_env_def demo_world_def cached_world_def demo_Encode_def
  demo_Decode_def dq_def demo_Atoi_def

lemmas run_defs =
  restoreAccessToken_def obtainAccessToken_def ts_Close_def callbacks_def handler_def
  ch_capacity_def loadJSONFromFile_def saveJSONToFile_def os_Open_def os_Create_def
  file_Write_def filepath_Join_def emit_def Let_def

section \<open>A failing save\<close>

text \<open>
  C1, as the code has it. When the record file cannot be loaded, the exchange succeeds
  and \<open>saveJSONToFile\<close> returns an error, \<open>restoreAccessToken\<close> returns that error and
  a nil credential: the failure of the save is the failure of the entry point.
\<close>

theorem restoreAccessToken_save_error:
  assumes "loadJSONFromFile E (filepath_Join (configDir E) ''auth.json'')
             \<lparr>AccessToken = [], Username = []\<rparr> w = ((Some err, v), w1)"
    and "obtainAccessToken E k (emit (LogPrint (error_string err)) w1) = (Return (tok, None), w3)"
    and "saveJSONToFile E (filepath_Join (configDir E) ''auth.json'') tok w3 = (Some err3, w4)"
  shows "restoreAccessToken E k w = (Return (None, Some err3), w4)"
  using assms by (simp add: restoreAccessToken_def Let_def)

theorem restoreAccessToken_save_error_witness:
  "fst (loadJSONFromFile save_fails_env (filepath_Join (configDir save_fails_env) ''auth.json'')
          \<lparr>AccessToken = [], Username = []\<rparr> demo_world)
     = (Some (Error ''open /home/alice/.config/pocket/auth.json: no such file or directory''),
        \<lparr>AccessToken = [], Username = []\<rparr>)
   \<and> fst (restoreAccessToken save_fails_env ''abc123'' demo_world)
     = Return (None, Some (Error ''permission denied''))"
proof -
  let ?p = "filepath_Join (configDir save_fails_env) ''auth.json''"
  let ?e = "Error ''open /home/alice/.config/pocket/auth.json: no such file or directory''"
  let ?z = "\<lparr>AccessToken = [], Username = []\<rparr>"
  let ?w1 = "snd (loadJSONFromFile save_fails_env ?p ?z demo_world)"
  let ?w2 = "emit (LogPrint (error_string ?e)) ?w1"
  let ?w3 = "snd (obtainAccessToken save_fails_env ''abc123'' ?w2)"
  let ?tok = "Some \<lparr>AccessToken = ''tok-xyz'', Username = ''alice''\<rparr>"
  let ?w4 = "snd (saveJSONToFile save_fails_env ?p ?tok ?w3)"
  have f1: "fst (loadJSONFromFile save_fails_env ?p ?z demo_world) = (Some ?e, ?z)"
    by (simp add: loadJSONFromFile_def os_Open_def filepath_Join_def demo_defs)
  then have h1: "loadJSONFromFile save_fails_env ?p ?z demo_world = ((Some ?e, ?z), ?w1)"
    by (simp add: prod_eq_iff)
  have h2: "obtainAccessToken save_fails_env ''abc123'' ?w2 = (Return (?tok, None), ?w3)"
    by (simp add: obtainAccessToken_def ts_Close_def callbacks_def handler_def ch_capacity_def
          Let_def demo_defs)
  have h3: "saveJSONToFile save_fails_env ?p ?tok ?w3 = (Some (Error ''permission denied''), ?w4)"
    by (simp add: saveJSONToFile_def os_Create_def demo_defs)
  from restoreAccessToken_save_error [OF h1 h2 h3] have
    "fst (restoreAccessToken save_fails_env ''abc123'' demo_world)
       = Return (None, Some (Error ''permission denied''))"
    by simp
  with f1 show ?thesis by simp
qed

text \<open>
  C1, as the specification has it, fails on that run: the exchange has answered
  \<open>tok-xyz\<close>, the save fails, and the caller gets no credential.
\<close>

theorem restoreAccessToken_save_error_counterexample:
  "fst (auth_ObtainAccessToken save_fails_env ''abc123'' (Some \<lparr>Code = ''req-1''\<rparr>))
     = Some \<lparr>AccessToken = ''tok-xyz'', Username = ''alice''\<rparr>
   \<and> fst (restoreAccessToken save_fails_env ''abc123'' demo_world)
     \<noteq> Return (Some \<lparr>AccessToken = ''tok-xyz'', Username = ''alice''\<rparr>, None)"
  by (simp add: run_defs demo_defs)

section \<open>The cached record\<close>

text \<open>
  C2. When the record file can be opened and decodes without error,
  \<open>restoreAccessToken\<close> returns the decoded record with a nil error; the files are as
  before, the only effect is the opening of the record file, and none of the steps of
  the acquisition flow is taken.
\<close>

theorem restoreAccessToken_cache_hit:
  assumes "os_Open_err E (filepath_Join (configDir E) ''auth.json'') = None"
    and "files w (filepath_Join (configDir E) ''auth.json'') = Some content"
    and "json_Decode E content \<lparr>AccessToken = [], Username = []\<rparr> = (None, loaded)"
    and "restoreAccessToken E k w = (r, w')"
  shows "r = Return (Some loaded, None) \<and> files w' = files w \<and>
         new_events w w' = [OsOpen (filepath_Join (configDir E) ''auth.json'')] \<and>
         steps w w' = []"
  using assms
  by (auto simp add: restoreAccessToken_def Let_def loadJSONFromFile_ok emit_def
        new_events_def steps_def)

theorem restoreAccessToken_cache_hit_witness:
  "fst (restoreAccessToken demo_env ''abc123'' cached_world)
     = Return (Some \<lparr>AccessToken = ''tok-xyz'', Username = ''alice''\<rparr>, None)
   \<and> files (snd (restoreAccessToken demo_env ''abc123'' cached_world)) = files cached_world
   \<and> new_events cached_world (snd (restoreAccessToken demo_env ''abc123'' cached_world))
     = [OsOpen ''/home/alice/.config/pocket/auth.json'']
   \<and> steps cached_world (snd (restoreAccessToken demo_env ''abc123'' cached_world)) = []"
proof -
  let ?p = "filepath_Join (configDir demo_env) ''auth.json''"
  let ?c = "''{'' @ dq @ ''access_token'' @ dq @ '':'' @ dq @ ''tok-xyz'' @ dq @ '','' @
            dq @ ''username'' @ dq @ '':'' @ dq @ ''alice'' @ dq @ ''}\<newline>''"
  have p: "?p = ''/home/alice/.config/pocket/auth.json''"
    by (simp add: filepath_Join_def demo_defs)
  have h1: "os_Open_err demo_env ?p = None"
    by (simp add: demo_defs)
  have h2: "files cached_world ?p = Some ?c"
    by (simp add: filepath_Join_def demo_defs)
  have h3: "json_Decode demo_env ?c \<lparr>AccessToken = [], Username = []\<rparr>
              = (None, \<lparr>AccessToken = ''tok-xyz'', Username = ''alice''\<rparr>)"
    by (simp add: demo_defs)
  have h4: "restoreAccessToken demo_env ''abc123'' cached_world
              = (fst (restoreAccessToken demo_env ''abc123'' cached_world),
                 snd (restoreAccessToken demo_env ''abc123'' cached_world))"
    by simp
  from restoreAccessToken_cache_hit [OF h1 h2 h3 h4] p show ?thesis by simp
qed

section \<open>The order of the steps\<close>

text \<open>
  C4, as the code has it. A run that cannot load the record file and returns a
  credential with a nil error takes the steps listener bind, request-credential, URL
  construction, await-signal, exchange, persist, in that order and once each: the
  listener is bound first, because its address is the redirect target of the request.
\<close>

theorem restoreAccessToken_steps:
  assumes "fst (fst (loadJSONFromFile E (filepath_Join (configDir E) ''auth.json'')
                  \<lparr>AccessToken = [], Username = []\<rparr> w)) \<noteq> None"
    and "restoreAccessToken E k w = (Return (tok, None), w')"
  shows "steps w w' =
           [ListenerBind, RequestCredential, URLConstruction, AwaitSignal, Exchange, Persist]"
proof -
  let ?p = "filepath_Join (configDir E) ''auth.json''"
  obtain err v w1 where
    ld: "loadJSONFromFile E ?p \<lparr>AccessToken = [], Username = []\<rparr> w = ((Some err, v), w1)"
    using assms(1)
    by (cases "loadJSONFromFile E ?p \<lparr>AccessToken = [], Username = []\<rparr> w") auto
  obtain oc w3 where
    ob: "obtainAccessToken E k (emit (LogPrint (error_string err)) w1) = (oc, w3)"
    by (cases "obtainAccessToken E k (emit (LogPrint (error_string err)) w1)")
  from assms(2) ld ob
  have oc: "oc = Return (tok, None)" and sv: "saveJSONToFile E ?p tok w3 = (None, w')"
    by (auto simp add: restore_miss split: outcome.splits option.splits prod.splits)
  from steps_run [OF ld ob [unfolded oc]] sv show ?thesis by simp
qed

theorem restoreAccessToken_steps_witness:
  "files demo_world (filepath_Join (configDir demo_env) ''auth.json'') = None
   \<and> fst (restoreAccessToken demo_env ''abc123'' demo_world)
     = Return (Some \<lparr>AccessToken = ''tok-xyz'', Username = ''alice''\<rparr>, None)
   \<and> steps demo_world (snd (restoreAccessToken demo_env ''abc123'' demo_world))
     = [ListenerBind, RequestCredential, URLConstruction, AwaitSignal, Exchange, Persist]"
proof -
  let ?p = "filepath_Join (configDir demo_env) ''auth.json''"
  have h0: "files demo_world ?p = None"
    by (simp add: demo_defs)
  have h1: "fst (fst (loadJSONFromFile demo_env ?p \<lparr>AccessToken = [], Username = []\<rparr>
                   demo_world)) \<noteq> None"
    using h0 by (rule loadJSONFromFile_missing)
  have r: "fst (restoreAccessToken demo_env ''abc123'' demo_world)
             = Return (Some \<lparr>AccessToken = ''tok-xyz'', Username = ''alice''\<rparr>, None)"
    by (simp add: run_defs demo_defs)
  then have h2: "restoreAccessToken demo_env ''abc123'' demo_world
              = (Return (Some \<lparr>AccessToken = ''tok-xyz'', Username = ''alice''\<rparr>, None),
                 snd (restoreAccessToken demo_env ''abc123'' demo_world))"
    by (simp add: prod_eq_iff)
  from restoreAccessToken_steps [OF h1 h2] h0 r show ?thesis by simp
qed

text \<open>
  C4, as the specification has it, puts the bind of the listener after the URL
  construction. The first run does not take the steps in that order.
\<close>

theorem restoreAccessToken_steps_counterexample:
  "fst (restoreAccessToken demo_env ''abc123'' demo_world)
     = Return (Some \<lparr>AccessToken = ''tok-xyz'', Username = ''alice''\<rparr>, None)
   \<and> steps demo_world (snd (restoreAccessToken demo_env ''abc123'' demo_world))
     \<noteq> [RequestCredential, URLConstruction, ListenerBind, AwaitSignal, Exchange, Persist]"
  by (simp add: run_defs demo_defs new_events_def steps_def)

section \<open>No record without an exchange\<close>

lemma restore_miss_no_save:
  assumes ld: "loadJSONFromFile E (filepath_Join (configDir E) ''auth.json'')
                 \<lparr>AccessToken = [], Username = []\<rparr> w = ((Some err, v), w1)"
    and ob: "obtainAccessToken E k (emit (LogPrint (error_string err)) w1) = (oc, w3)"
    and nr: "\<forall>tok. oc \<noteq> Return (tok, None)"
  shows "snd (restoreAccessToken E k w) = w3"
  using ob nr unfolding restore_miss [OF ld]
  by (auto split: outcome.splits option.splits prod.splits)

lemma restore_miss_save:
  assumes ld: "loadJSONFromFile E (filepath_Join (configDir E) ''auth.json'')
                 \<lparr>AccessToken = [], Username = []\<rparr> w = ((Some err, v), w1)"
    and ob: "obtainAccessToken E k (emit (LogPrint (error_string err)) w1) = (Return (tok, None), w3)"
  shows "snd (restoreAccessToken E k w) =
           snd (saveJSONToFile E (filepath_Join (configDir E) ''auth.json'') tok w3)"
  using ob unfolding restore_miss [OF ld]
  by (auto split: outcome.splits option.splits prod.splits)

text \<open>
  C3. In every run of \<open>restoreAccessToken\<close>: when the request for a request credential
  fails, or no callback request reaches the listener, or the exchange fails, the files
  are what they were before the run and the run has neither created nor written a file.
  And when the files have changed, the request has succeeded, a callback has arrived,
  the exchange has succeeded, and the run has taken all the steps of the flow up to the
  persist step.
\<close>

theorem restoreAccessToken_writes_only_after_exchange:
  assumes run: "restoreAccessToken E k w = (r, w')"
  shows "(snd (auth_ObtainRequestToken E k (ts_URL E)) \<noteq> None \<or> callbacks E = [] \<or>
          snd (auth_ObtainAccessToken E k (fst (auth_ObtainRequestToken E k (ts_URL E)))) \<noteq> None
          \<longrightarrow> files w' = files w \<and> (\<forall>ev\<in>set (new_events w w'). \<not> is_write ev))
       \<and> (files w' \<noteq> files w \<longrightarrow>
            snd (auth_ObtainRequestToken E k (ts_URL E)) = None \<and> callbacks E \<noteq> [] \<and>
            snd (auth_ObtainAccessToken E k (fst (auth_ObtainRequestToken E k (ts_URL E)))) = None \<and>
            steps w w' =
              [ListenerBind, RequestCredential, URLConstruction, AwaitSignal, Exchange, Persist])"
proof -
  let ?p = "filepath_Join (configDir E) ''auth.json''"
  let ?z = "\<lparr>AccessToken = [], Username = []\<rparr>"
  let ?fails = "snd (auth_ObtainRequestToken E k (ts_URL E)) \<noteq> None \<or> callbacks E = [] \<or>
          snd (auth_ObtainAccessToken E k (fst (auth_ObtainRequestToken E k (ts_URL E)))) \<noteq> None"
  obtain e v w1 where ld: "loadJSONFromFile E ?p ?z w = ((e, v), w1)"
    by (cases "loadJSONFromFile E ?p ?z w") auto
  have w1: "w1 = emit (OsOpen ?p) w"
    using ld loadJSONFromFile_world [of E ?p ?z w] by simp
  show ?thesis
  proof (cases e)
    case None
    with ld run have "w' = emit (OsOpen ?p) w"
      by (simp add: restore_hit)
    then show ?thesis
      by (simp add: emit_def new_events_def)
  next
    case (Some err)
    note ld' = ld [unfolded Some]
    obtain oc w3 where
      ob: "obtainAccessToken E k (emit (LogPrint (error_string err)) w1) = (oc, w3)"
      by (cases "obtainAccessToken E k (emit (LogPrint (error_string err)) w1)")
    have f3: "files w3 = files w"
      using obtainAccessToken_files [of E k "emit (LogPrint (error_string err)) w1"] ob w1
      by (simp add: emit_files)
    obtain es where t3: "trace w3 = trace w @ [OsOpen ?p, LogPrint (error_string err)] @ es"
      and es: "\<forall>ev\<in>set es. \<not> is_write ev"
      using obtainAccessToken_trace [of E k "emit (LogPrint (error_string err)) w1"] ob w1
      by (auto simp add: emit_trace)
    show ?thesis
    proof (cases "\<exists>tok. oc = Return (tok, None)")
      case True
      then obtain tok where oc: "oc = Return (tok, None)" by blast
      note ob' = ob [unfolded oc]
      from obtainAccessToken_Return [OF ob'] have ok: "\<not> ?fails"
        by auto
      have "w' = snd (saveJSONToFile E ?p tok w3)"
        using restore_miss_save [OF ld' ob'] run by simp
      then have "steps w w' =
          [ListenerBind, RequestCredential, URLConstruction, AwaitSignal, Exchange, Persist]"
        using steps_run [OF ld' ob'] by simp
      with ok show ?thesis by blast
    next
      case False
      then have "\<forall>tok. oc \<noteq> Return (tok, None)" by blast
      from restore_miss_no_save [OF ld' ob this] run have w': "w' = w3" by simp
      have "new_events w w' = [OsOpen ?p, LogPrint (error_string err)] @ es"
        by (rule new_events_append) (simp add: w' t3)
      with es f3 w' show ?thesis by simp
    qed
  qed
qed

text \<open>
  The two sides at work: a declined exchange leaves the files empty, and the first run,
  which changes the files, has gone through the whole flow.
\<close>

theorem restoreAccessToken_writes_only_after_exchange_witness:
  "snd (auth_ObtainAccessToken exchange_fails_env ''abc123''
          (fst (auth_ObtainRequestToken exchange_fails_env ''abc123'' (ts_URL exchange_fails_env))))
     = Some (Error ''403 Forbidden'')
   \<and> fst (restoreAccessToken exchange_fails_env ''abc123'' demo_world)
     = Return (None, Some (Error ''403 Forbidden''))
   \<and> files (snd (restoreAccessToken exchange_fails_env ''abc123'' demo_world)) = files demo_world
   \<and> files (snd (restoreAccessToken demo_env ''abc123'' demo_world))
        ''/home/alice/.config/pocket/auth.json'' \<noteq> None
   \<and> steps demo_world (snd (restoreAccessToken demo_env ''abc123'' demo_world))
     = [ListenerBind, RequestCredential, URLConstruction, AwaitSignal, Exchange, Persist]"
proof -
  let ?r1 = "restoreAccessToken exchange_fails_env ''abc123'' demo_world"
  let ?r2 = "restoreAccessToken demo_env ''abc123'' demo_world"
  have a1: "snd (auth_ObtainAccessToken exchange_fails_env ''abc123''
          (fst (auth_ObtainRequestToken exchange_fails_env ''abc123'' (ts_URL exchange_fails_env))))
     = Some (Error ''403 Forbidden'')"
    by (simp add: exchange_fails_env_def demo_defs)
  have a2: "fst ?r1 = Return (None, Some (Error ''403 Forbidden''))"
    by (simp add: exchange_fails_env_def run_defs demo_defs)
  have a3: "files (snd ?r2) ''/home/alice/.config/pocket/auth.json'' \<noteq> None"
    by (simp add: run_defs demo_defs)
  have "files demo_world ''/home/alice/.config/pocket/auth.json'' = None"
    by (simp add: demo_defs)
  with a3 have a4: "files (snd ?r2) \<noteq> files demo_world"
    by metis
  have h1: "?r1 = (fst ?r1, snd ?r1)" and h2: "?r2 = (fst ?r2, snd ?r2)"
    by simp_all
  from restoreAccessToken_writes_only_after_exchange [OF h1] a1
  have "files (snd ?r1) = files demo_world"
    by simp
  moreover from restoreAccessToken_writes_only_after_exchange [OF h2] a4
  have "steps demo_world (snd ?r2) =
      [ListenerBind, RequestCredential, URLConstruction, AwaitSignal, Exchange, Persist]"
    by blast
  ultimately show ?thesis using a1 a2 a3 by blast
qed

section \<open>The favicon probe and the callback\<close>



section \<open>The tags of an added item\<close>

lemma add_names: "concat (map eachName add_Flags) = [''title'', ''t'', ''tags'', ''tg'']"
  by (simp add: add_Flags_def titleFlag_def tagsFlag_def eachName_def strings_Trim_def)

lemma add_String_tags: "c_String (newContext add_Flags given arguments) ''--tags'' = []"
  by (simp add: c_String_def newContext_def add_names)

text \<open>
  C9. In every run of the command \<open>add\<close>, whatever values the flags were given on the
  command line: every option record handed to the remote client has the empty string as
  its tags, and when there is a URL argument the record handed over is the one with
  that URL, the title of the flag \<open>title\<close> and no tags. The flags are registered under
  the names \<open>title\<close>, \<open>t\<close>, \<open>tags\<close> and \<open>tg\<close>; the command asks for \<open>--tags\<close>.
\<close>

theorem commandAdd_tags_empty:
  "(\<forall>opt. ClientAdd opt \<in> set (new_events w (snd (commandAdd E (newContext add_Flags given arguments) w)))
       \<longrightarrow> Tags opt = [])
   \<and> (c_Args_First (newContext add_Flags given arguments) \<noteq> [] \<longrightarrow>
        ClientAdd \<lparr>URL = c_Args_First (newContext add_Flags given arguments),
                   Title = c_String (newContext add_Flags given arguments) ''title'',
                   Tags = []\<rparr>
          \<in> set (new_events w (snd (commandAdd E (newContext add_Flags given arguments) w))))"
  by (auto simp add: commandAdd_def add_String_tags Let_def emit_def new_events_def split: option.splits)

theorem commandAdd_tags_empty_witness:
  "c_String (newContext add_Flags [''tags'' \<mapsto> ''go,cli''] [''https://example.com/a'']) ''tags'' = ''go,cli''
   \<and> new_events demo_world
        (snd (commandAdd demo_env (newContext add_Flags [''tags'' \<mapsto> ''go,cli''] [''https://example.com/a''])
                demo_world))
      = [ClientAdd \<lparr>URL = ''https://example.com/a'', Title = [], Tags = []\<rparr>]
   \<and> ClientAdd \<lparr>URL = ''https://example.com/a'', Title = [], Tags = []\<rparr>
        \<in> set (new_events demo_world
             (snd (commandAdd demo_env (newContext add_Flags [''tags'' \<mapsto> ''go,cli''] [''https://example.com/a''])
                     demo_world)))"
proof -
  let ?c = "newContext add_Flags [''tags'' \<mapsto> ''go,cli''] [''https://example.com/a'']"
  have a: "c_Args_First ?c = ''https://example.com/a''"
    by (simp add: c_Args_First_def newContext_def)
  have t: "c_String ?c ''title'' = []"
    by (simp add: c_String_def newContext_def add_names)
  have g: "c_String ?c ''tags'' = ''go,cli''"
    by (simp add: c_String_def newContext_def add_names)
  have n: "new_events demo_world (snd (commandAdd demo_env ?c demo_world))
             = [ClientAdd \<lparr>URL = ''https://example.com/a'', Title = [], Tags = []\<rparr>]"
    by (simp add: commandAdd_def a t add_String_tags Let_def emit_def new_events_def demo_defs)
  from commandAdd_tags_empty [of demo_world demo_env "[''tags'' \<mapsto> ''go,cli'']" "[''https://example.com/a'']"]
  have "ClientAdd \<lparr>URL = ''https://example.com/a'', Title = [], Tags = []\<rparr>
          \<in> set (new_events demo_world (snd (commandAdd demo_env ?c demo_world)))"
    by (simp add: a t)
  with g n show ?thesis by blast
qed

section \<open>The result of the archive command\<close>

text \<open>
  C10. In every run of the command \<open>archive\<close> whose first argument is not empty and is
  accepted by \<open>strconv.Atoi\<close>: the command returns nil and the process status is 0,
  whatever the remote client answers; the run calls \<open>Modify\<close> with the archive action of
  that item and prints the result and the error of the call, and does nothing else.
\<close>

theorem commandArchive_returns_nil:
  assumes "c_Args_First c \<noteq> []"
    and "strconv_Atoi E (c_Args_First c) = (itemID, None)"
  shows "fst (commandArchive E c w) = Return None \<and>
         main_exit (fst (commandArchive E c w)) = Some 0 \<and>
         new_events w (snd (commandArchive E c w)) =
           [ClientModify (NewArchiveAction itemID),
            StdoutPrintlnModify (fst (client_Modify E (NewArchiveAction itemID)))
                                (snd (client_Modify E (NewArchiveAction itemID)))]"
  using assms
  by (simp add: commandArchive_def Let_def emit_def new_events_def main_exit_def split: prod.splits)

theorem commandArchive_returns_nil_witness:
  "client_Modify demo_env (NewArchiveAction 12345) = (None, Some (Error ''503 Service Unavailable''))
   \<and> fst (commandArchive demo_env \<lparr>args = [''12345''], flagSet = Map.empty\<rparr> demo_world) = Return None
   \<and> main_exit (fst (commandArchive demo_env \<lparr>args = [''12345''], flagSet = Map.empty\<rparr> demo_world)) = Some 0
   \<and> new_events demo_world (snd (commandArchive demo_env \<lparr>args = [''12345''], flagSet = Map.empty\<rparr> demo_world))
      = [ClientModify \<lparr>Action = ''archive'', ItemID = 12345\<rparr>,
         StdoutPrintlnModify None (Some (Error ''503 Service Unavailable''))]"
proof -
  let ?c = "\<lparr>args = [''12345''], flagSet = Map.empty\<rparr>"
  have h1: "c_Args_First ?c \<noteq> []"
    by (simp add: c_Args_First_def)
  have h2: "strconv_Atoi demo_env (c_Args_First ?c) = (12345, None)"
    by (simp add: c_Args_First_def demo_defs)
  have m: "client_Modify demo_env (NewArchiveAction 12345) = (None, Some (Error ''503 Service Unavailable''))"
    by (simp add: demo_defs)
  from commandArchive_returns_nil [OF h1 h2, of demo_world] m show ?thesis
    by (simp add: NewArchiveAction_def main_exit_def)
qed

section \<open>Reading the consumer key\<close>












end
